theory Spec2Isabelle
  imports Complex_Main "HOL-Library.AList"
begin

section \<open>Python values, errors and dictionaries\<close>

text \<open>
  The services are Python. Floats are modelled as \<^typ>\<open>real\<close> (exact arithmetic; rounding
  is outside this model), exceptions as values of \<open>error + 'a\<close> with \<open>Inl\<close> the raised
  exception, and a \<open>dict\<close> as an association list in insertion order. A Python dict has
  one entry per key, so a list stands for a dict when its keys are distinct.
\<close>

datatype error =
    AttributeError string
  | NameError string
  | ValueError string
  | ValidationError string
  | ZeroDivisionError
  | FetchFailure string

type_synonym ('k, 'v) dict = "('k \<times> 'v) list"

definition dict_get :: "('k, 'v) dict \<Rightarrow> 'k \<Rightarrow> 'v \<Rightarrow> 'v" where
  \<comment> \<open>\<open>d.get(k, default)\<close>\<close>
  "dict_get d k dflt = (case map_of d k of None \<Rightarrow> dflt | Some v \<Rightarrow> v)"

definition dict_set :: "('k, 'v) dict \<Rightarrow> 'k \<Rightarrow> 'v \<Rightarrow> ('k, 'v) dict" where
  \<comment> \<open>\<open>d[k] = v\<close>: overwrite in place, or append a new key\<close>
  "dict_set d k v = AList.update k v d"

definition values_of :: "('k, 'v) dict \<Rightarrow> 'v list" where
  \<comment> \<open>\<open>list(d.values())\<close>\<close>
  "values_of d = map snd d"

definition py_div :: "real \<Rightarrow> real \<Rightarrow> error + real" where
  \<comment> \<open>float division raises on a zero divisor\<close>
  "py_div a b = (if b = 0 then Inl ZeroDivisionError else Inr (a / b))"

section \<open>Raw data (fusion engine)\<close>

text \<open>
  A raw record is the dict of one dataset as \<open>_generate_mock_nasa_data\<close> builds it: numeric
  fields by name, and possibly the string field \<open>quality_flag\<close>. The raw-data map is a
  dict from dataset id to raw record; a dataset is absent when its key is.
\<close>

record raw_record =
  numeric :: "(string, real) dict"
  quality_flag :: "string option"

type_synonym raw_data = "(string, raw_record) dict"

definition empty_record :: raw_record where
  \<comment> \<open>the \<open>{}\<close> default of \<open>raw_data.get(key, {})\<close>\<close>
  "empty_record = \<lparr>numeric = [], quality_flag = None\<rparr>"

definition raw_get :: "raw_data \<Rightarrow> string \<Rightarrow> raw_record" where
  "raw_get raw_data key = dict_get raw_data key empty_record"

definition field :: "raw_record \<Rightarrow> string \<Rightarrow> real \<Rightarrow> real" where
  \<comment> \<open>\<open>data.get(name, default)\<close> on a numeric field\<close>
  "field data name dflt = dict_get (numeric data) name dflt"

section \<open>USMI helpers (fusion\_engine.py)\<close>

record gpm_precipitation =
  rate :: real
  total :: real
  probability :: real

record modis_lst =
  day :: real
  night :: real
  average :: real

record ecostress_et =
  actual :: real
  potential :: real
  deficit :: real

definition process_smap_surface :: "raw_record \<Rightarrow> real" where
  "process_smap_surface data = field data ''surface_moisture'' 0.25"

definition process_smap_root_zone :: "raw_record \<Rightarrow> real" where
  "process_smap_root_zone data = field data ''root_zone_moisture'' 0.30"

definition process_gpm_precipitation :: "raw_record \<Rightarrow> gpm_precipitation" where
  "process_gpm_precipitation data =
     \<lparr>rate = field data ''precipitation_rate'' 2.0,
      total = field data ''precipitation_cal'' 20.0,
      probability = field data ''probability_of_precipitation'' 0.3\<rparr>"

definition process_modis_lst :: "raw_record \<Rightarrow> modis_lst" where
  "process_modis_lst data =
     \<lparr>day = field data ''day_lst'' 30.0,
      night = field data ''night_lst'' 15.0,
      average = (field data ''day_lst'' 30.0 + field data ''night_lst'' 15.0) / 2\<rparr>"

definition process_ecostress_et :: "raw_record \<Rightarrow> ecostress_et" where
  "process_ecostress_et data =
     \<lparr>actual = field data ''et_actual'' 5.0,
      potential = field data ''et_potential'' 8.0,
      deficit = max 0 (field data ''et_potential'' 8.0 - field data ''et_actual'' 5.0)\<rparr>"

definition normalization_ranges :: "string \<Rightarrow> real \<times> real" where
  "normalization_ranges data_type =
     (if data_type = ''soil_moisture'' then (0.0, 0.5)
      else if data_type = ''precipitation'' then (0.0, 50.0)
      else if data_type = ''temperature'' then (0.0, 50.0)
      else (0.0, 1.0))"

definition spatial_normalize :: "real \<Rightarrow> string \<Rightarrow> real" where
  \<comment> \<open>the divisor \<open>max_val - min_val\<close> is 0.5, 50 or 1, never zero\<close>
  "spatial_normalize v data_type =
     (case normalization_ranges data_type of
        (min_val, max_val) \<Rightarrow> max 0.0 (min 1.0 ((v - min_val) / (max_val - min_val))))"

definition temporal_normalize :: "gpm_precipitation \<Rightarrow> string \<Rightarrow> nat \<Rightarrow> error + real" where
  "temporal_normalize data data_type days =
     (if data_type = ''precipitation'' then
        (let optimal = real days * 5.0 in
         case py_div (total data) optimal of
           Inl e \<Rightarrow> Inl e
         | Inr q \<Rightarrow> Inr (max 0.0 (min 1.0 q)))
      else Inr 0.5)"

definition calculate_temperature_stress :: "modis_lst \<Rightarrow> real" where
  "calculate_temperature_stress temperature =
     (let avg_temp = average temperature in
      if 20 \<le> avg_temp \<and> avg_temp \<le> 30 then 1.0
      else if avg_temp < 20 then max 0.0 (avg_temp / 20.0)
      else max 0.0 (1.0 - (avg_temp - 30) / 20.0))"

definition calculate_et_deficit :: "ecostress_et \<Rightarrow> gpm_precipitation \<Rightarrow> real" where
  "calculate_et_deficit et_data precipitation =
     (let et_deficit = deficit et_data;
          precipitation_total = total precipitation
      in if precipitation_total > 0
         then max 0.0 (min 1.0 (et_deficit / precipitation_total))
         else 0.5)"

definition quality_weight :: "raw_record \<Rightarrow> real" where
  \<comment> \<open>the body of the loop of \<open>_assess_data_quality\<close>\<close>
  "quality_weight data =
     (case quality_flag data of
        Some flag \<Rightarrow>
          (if flag = ''good'' then 1.0
           else if flag = ''marginal'' then 0.7
           else 0.4)
      | None \<Rightarrow> 0.8)"

definition assess_data_quality :: "raw_data \<Rightarrow> (string, real) dict" where
  \<comment> \<open>\<open>for dataset, data in raw_data.items(): quality_weights[dataset] = ...\<close>\<close>
  "assess_data_quality raw_data =
     fold (\<lambda>(dataset, data) quality_weights. dict_set quality_weights dataset (quality_weight data))
       raw_data []"

definition propagate_uncertainty :: "(string, real) dict \<Rightarrow> (string, real) dict \<Rightarrow> real" where
  \<comment> \<open>the loop appends one scaled term per entry of \<open>weights\<close>; \<open>components\<close> is not read\<close>
  "propagate_uncertainty components weights =
     (let uncertainties =
            fold (\<lambda>(key, weight) acc. acc @ [(1.0 - weight) * 0.1]) weights []
      in min 0.5 (sum_list uncertainties))"

definition generate_usmi_recommendations :: "real \<Rightarrow> string list" where
  "generate_usmi_recommendations usmi_value =
     (if usmi_value < 0.3 then
        [''Critical soil moisture levels detected'',
         ''Immediate irrigation recommended'',
         ''Consider soil moisture monitoring system'']
      else if usmi_value < 0.5 then
        [''Below optimal soil moisture'',
         ''Schedule irrigation within 2-3 days'',
         ''Monitor soil conditions closely'']
      else if usmi_value > 0.8 then
        [''Excellent soil moisture conditions'',
         ''No irrigation needed'',
         ''Continue current management practices'']
      else [''Soil moisture within acceptable range''])"

record quality_info =
  flag_name :: string
  data_completeness :: real
  temporal_coverage :: string

definition generate_quality_flags :: "raw_data \<Rightarrow> (string, quality_info) dict" where
  "generate_quality_flags raw_data =
     fold (\<lambda>(dataset, data) flags. dict_set flags dataset
            \<lparr>flag_name = (case quality_flag data of None \<Rightarrow> ''unknown'' | Some f \<Rightarrow> f),
             data_completeness =
               (if numeric data = [] \<and> quality_flag data = None then 0.0 else 1.0),
             temporal_coverage = ''complete''\<rparr>)
       raw_data []"

section \<open>USMI (models.py and fusion\_engine.py)\<close>

record usmi =
  usmi_value :: real
  usmi_confidence :: real
  usmi_components :: "(string, real) dict"
  usmi_quality_flags :: "(string, quality_info) dict"
  usmi_recommendations :: "string list"

definition in_unit :: "real \<Rightarrow> bool" where
  \<comment> \<open>the pydantic constraint \<open>Field(..., ge=0.0, le=1.0)\<close>\<close>
  "in_unit x = (0 \<le> x \<and> x \<le> 1)"

definition USMI ::
  "real \<Rightarrow> real \<Rightarrow> (string, real) dict \<Rightarrow> (string, quality_info) dict \<Rightarrow> string list
   \<Rightarrow> error + usmi" where
  \<comment> \<open>the model constructor validates the constrained fields\<close>
  "USMI v c comps flags recs =
     (if \<not> in_unit v then Inl (ValidationError ''value'')
      else if \<not> in_unit c then Inl (ValidationError ''confidence'')
      else Inr \<lparr>usmi_value = v, usmi_confidence = c, usmi_components = comps,
                usmi_quality_flags = flags, usmi_recommendations = recs\<rparr>)"

definition get_category :: "usmi \<Rightarrow> string" where
  "get_category u =
     (if usmi_value u \<ge> 0.8 then ''optimal''
      else if usmi_value u \<ge> 0.6 then ''good''
      else if usmi_value u \<ge> 0.4 then ''moderate''
      else if usmi_value u \<ge> 0.2 then ''poor''
      else ''critical'')"

definition usmi_uncertainty :: "raw_data \<Rightarrow> real" where
  \<comment> \<open>the local \<open>uncertainty\<close> of \<open>compute_unified_soil_moisture_index\<close>; the components
      argument is passed but never read by \<open>_propagate_uncertainty\<close>\<close>
  "usmi_uncertainty raw_data = propagate_uncertainty [] (assess_data_quality raw_data)"

definition compute_unified_soil_moisture_index :: "raw_data \<Rightarrow> error + usmi" where
  "compute_unified_soil_moisture_index raw_data =
     (let smap_surface = process_smap_surface (raw_get raw_data ''smap_l3'');
          smap_root = process_smap_root_zone (raw_get raw_data ''smap_l4'');
          precipitation = process_gpm_precipitation (raw_get raw_data ''gpm'');
          temperature = process_modis_lst (raw_get raw_data ''modis_lst'');
          et_data = process_ecostress_et (raw_get raw_data ''ecostress'')
      in case temporal_normalize precipitation ''precipitation'' 7 of
           Inl e \<Rightarrow> Inl e
         | Inr precipitation_factor \<Rightarrow>
      (let surface_moisture = spatial_normalize smap_surface ''soil_moisture'';
           root_zone_moisture = spatial_normalize smap_root ''soil_moisture'';
           temperature_stress = calculate_temperature_stress temperature;
           et_deficit = calculate_et_deficit et_data precipitation;
           normalized_components =
             [(''surface_moisture'', surface_moisture),
              (''root_zone_moisture'', root_zone_moisture),
              (''precipitation_factor'', precipitation_factor),
              (''temperature_stress'', temperature_stress),
              (''et_deficit'', et_deficit)];
           quality_weights = assess_data_quality raw_data;
           v =
             surface_moisture * 0.35 * dict_get quality_weights ''smap_l3'' 1.0 +
             root_zone_moisture * 0.25 * dict_get quality_weights ''smap_l4'' 1.0 +
             precipitation_factor * 0.20 * dict_get quality_weights ''gpm'' 1.0 +
             temperature_stress * 0.15 * dict_get quality_weights ''modis_lst'' 1.0 +
             et_deficit * 0.05 * dict_get quality_weights ''ecostress'' 1.0;
           uncertainty = propagate_uncertainty normalized_components quality_weights;
           confidence = max 0.0 (1.0 - uncertainty);
           recommendations = generate_usmi_recommendations v
       in USMI v confidence normalized_components (generate_quality_flags raw_data)
            recommendations))"

section \<open>Names bound in the two modules\<close>

text \<open>
  \<open>models.py\<close> imports \<open>pydantic\<close>, \<open>typing\<close>, \<open>datetime\<close> and \<open>enum\<close> and defines its
  classes; these are all the global names a method of that module can read. A name outside
  the list raises \<open>NameError\<close> when it is evaluated. The class
  \<open>AgriculturalDataFusionEngine\<close> has no base class: its attributes are the instance
  fields set by \<open>__init__\<close> and the methods its body defines, and reading any other
  attribute of \<open>self\<close> raises \<open>AttributeError\<close>.
\<close>

definition models_module_names :: "string list" where
  "models_module_names =
     [''BaseModel'', ''Field'', ''Dict'', ''List'', ''Optional'', ''Any'', ''datetime'', ''Enum'',
      ''GeoLocation'', ''DateRange'', ''FusionRequest'', ''USMI'', ''AWLI'', ''PAOI'',
      ''FusionResponse'', ''CropRecommendation'', ''MetricsHistory'']"

definition models_global :: "string \<Rightarrow> error + unit" where
  "models_global name =
     (if name \<in> set models_module_names then Inr () else Inl (NameError name))"

definition engine_attributes :: "string list" where
  "engine_attributes =
     [''nasa_ingest_url'', ''db_pool'', ''redis_client'', ''crop_databases'', ''climatology_data'',
      ''initialize'', ''_initialize_crop_databases'', ''fetch_raw_data'',
      ''_generate_mock_nasa_data'', ''compute_unified_soil_moisture_index'',
      ''compute_agricultural_water_level_indicator'',
      ''compute_pesticide_application_optimization_index'',
      ''_process_smap_surface'', ''_process_smap_root_zone'', ''_process_gpm_precipitation'',
      ''_process_modis_lst'', ''_process_ecostress_et'', ''_spatial_normalize'',
      ''_temporal_normalize'', ''_calculate_temperature_stress'', ''_calculate_et_deficit'',
      ''_assess_data_quality'', ''_propagate_uncertainty'', ''_generate_usmi_recommendations'',
      ''_generate_quality_flags'', ''_process_grace_groundwater'',
      ''_process_gldas_soil_moisture'', ''_process_vegetation_indices'',
      ''_calculate_vegetation_water_stress'', ''_calculate_precipitation_anomaly'',
      ''_get_precipitation_climatology'', ''_calculate_potential_et'', ''_safe_divide'',
      ''_analyze_surface_water'', ''_get_crop_water_requirements'', ''_get_crop_water_weights'',
      ''_assess_water_requirement_status'', ''_generate_irrigation_recommendations'',
      ''_detect_vegetation_anomalies'', ''_calculate_humidity_proxy'',
      ''_model_pest_favorable_conditions'', ''_extract_wind_data'',
      ''_get_precipitation_forecast'', ''_assess_application_weather_suitability'',
      ''_determine_phenology_stage'', ''_get_pesticide_timing_score'', ''_mock_aerosol_data'',
      ''_calculate_spray_drift_risk'', ''_calculate_optimal_application_window'',
      ''_assess_environmental_impact'', ''_generate_pesticide_recommendations'',
      ''generate_integrated_recommendations'', ''generate_alerts'', ''store_fusion_results'',
      ''get_metrics_history'', ''get_crop_recommendations'']"

definition engine_getattr :: "string \<Rightarrow> error + unit" where
  "engine_getattr name =
     (if name \<in> set engine_attributes then Inr () else Inl (AttributeError name))"

section \<open>numpy helpers\<close>

definition np_mean :: "real list \<Rightarrow> real" where
  \<comment> \<open>arithmetic mean; every call below passes a non-empty list\<close>
  "np_mean xs = sum_list xs / real (length xs)"

definition np_std :: "real list \<Rightarrow> real" where
  \<comment> \<open>population standard deviation (\<open>ddof = 0\<close>)\<close>
  "np_std xs = sqrt (np_mean (map (\<lambda>x. (x - np_mean xs)\<^sup>2) xs))"

definition py_int :: "real \<Rightarrow> int" where
  \<comment> \<open>\<open>int(x)\<close> truncates towards zero\<close>
  "py_int x = (if 0 \<le> x then \<lfloor>x\<rfloor> else \<lceil>x\<rceil>)"

definition lower_char :: "char \<Rightarrow> char" where
  \<comment> \<open>an ASCII capital (codes 65 to 90) becomes its small letter: bit 5 is set\<close>
  "lower_char c =
     (let n = (of_char c :: nat)
      in if 65 \<le> n \<and> n \<le> 90
         then (case c of Char b0 b1 b2 b3 b4 b5 b6 b7 \<Rightarrow> Char b0 b1 b2 b3 b4 True b6 b7)
         else c)"

definition py_lower :: "string \<Rightarrow> string" where
  \<comment> \<open>\<open>str.lower()\<close> on the ASCII letters; other bytes are kept\<close>
  "py_lower s = map lower_char s"

section \<open>Crop database (fusion\_engine.py)\<close>

record CropData =
  name :: string
  water_requirements :: "(string, real) dict"
  optimal_temperature :: "real \<times> real"
  soil_moisture_optimal :: "real \<times> real"
  pest_susceptibility :: "(string, real) dict"
  phenology_stages :: "(string, int) dict"

definition corn :: CropData where
  "corn =
     \<lparr>name = ''Corn'',
      water_requirements =
        [(''germination'', 5), (''vegetative'', 8), (''reproductive'', 12), (''maturity'', 6)],
      optimal_temperature = (18, 27),
      soil_moisture_optimal = (0.3, 0.6),
      pest_susceptibility = [(''corn_borer'', 0.8), (''aphids'', 0.6), (''rust'', 0.4)],
      phenology_stages =
        [(''emergence'', 10), (''vegetative'', 45), (''reproductive'', 85), (''maturity'', 120)]\<rparr>"

definition wheat :: CropData where
  "wheat =
     \<lparr>name = ''Wheat'',
      water_requirements =
        [(''germination'', 3), (''vegetative'', 6), (''reproductive'', 8), (''maturity'', 4)],
      optimal_temperature = (15, 25),
      soil_moisture_optimal = (0.25, 0.5),
      pest_susceptibility = [(''rust'', 0.7), (''aphids'', 0.5), (''weevils'', 0.6)],
      phenology_stages =
        [(''emergence'', 7), (''vegetative'', 60), (''reproductive'', 120), (''maturity'', 150)]\<rparr>"

definition soybean :: CropData where
  "soybean =
     \<lparr>name = ''Soybean'',
      water_requirements =
        [(''germination'', 4), (''vegetative'', 7), (''reproductive'', 10), (''maturity'', 5)],
      optimal_temperature = (20, 30),
      soil_moisture_optimal = (0.3, 0.55),
      pest_susceptibility = [(''aphids'', 0.7), (''caterpillars'', 0.6), (''rust'', 0.5)],
      phenology_stages =
        [(''emergence'', 8), (''vegetative'', 35), (''reproductive'', 75), (''maturity'', 110)]\<rparr>"

definition rice :: CropData where
  "rice =
     \<lparr>name = ''Rice'',
      water_requirements =
        [(''germination'', 8), (''vegetative'', 12), (''reproductive'', 15), (''maturity'', 8)],
      optimal_temperature = (25, 35),
      soil_moisture_optimal = (0.4, 0.7),
      pest_susceptibility =
        [(''brown_plant_hopper'', 0.8), (''rice_blast'', 0.7), (''stem_borer'', 0.6)],
      phenology_stages =
        [(''emergence'', 12), (''vegetative'', 50), (''reproductive'', 90), (''maturity'', 130)]\<rparr>"

definition crop_databases :: "(string, CropData) dict" where
  "crop_databases = [(''corn'', corn), (''wheat'', wheat), (''soybean'', soybean), (''rice'', rice)]"

definition lookup_crop :: "string \<Rightarrow> CropData" where
  \<comment> \<open>\<open>self.crop_databases.get(crop_type.lower(), self.crop_databases['corn'])\<close>; the
      default is the entry under the key \<open>corn\<close>, which the database has\<close>
  "lookup_crop crop_type = dict_get crop_databases (py_lower crop_type) corn"

section \<open>AWLI helpers (fusion\_engine.py)\<close>

record grace_groundwater =
  anomaly :: real
  grace_uncertainty :: real

record gldas_soil_moisture =
  surface :: real
  root_zone :: real

record vegetation_indices =
  ndvi :: real
  evi :: real
  phenology_stage :: string

definition process_grace_groundwater :: "raw_record \<Rightarrow> grace_groundwater" where
  "process_grace_groundwater data =
     \<lparr>anomaly = field data ''groundwater_anomaly'' 0.0,
      grace_uncertainty = field data ''uncertainty'' 2.0\<rparr>"

definition process_gldas_soil_moisture :: "raw_record \<Rightarrow> gldas_soil_moisture" where
  "process_gldas_soil_moisture data =
     \<lparr>surface = field data ''surface_moisture'' 0.25,
      root_zone = field data ''root_zone_moisture'' 0.30\<rparr>"

definition process_vegetation_indices :: "raw_record \<Rightarrow> vegetation_indices" where
  "process_vegetation_indices data =
     \<lparr>ndvi = field data ''ndvi'' 0.5,
      evi = field data ''evi'' 0.3,
      phenology_stage = ''vegetative''\<rparr>"

definition calculate_vegetation_water_stress :: "vegetation_indices \<Rightarrow> raw_record \<Rightarrow> real" where
  \<comment> \<open>the second argument is the raw MODIS LST record, read at the key \<open>average\<close>\<close>
  "calculate_vegetation_water_stress ndvi_data lst_data =
     (let nd = ndvi ndvi_data;
          lst = field lst_data ''average'' 25.0
      in if nd > 0.6 \<and> lst < 30 then 1.0
         else if nd < 0.4 \<or> lst > 35 then 0.0
         else (nd - 0.4) / 0.2)"

definition get_precipitation_climatology :: "(string, real) dict" where
  "get_precipitation_climatology = [(''mean'', 25.0), (''std'', 10.0)]"

definition calculate_precipitation_anomaly :: "raw_record \<Rightarrow> (string, real) dict \<Rightarrow> real" where
  "calculate_precipitation_anomaly gpm_data climatology =
     (let current_precip = field gpm_data ''precipitation_cal'' 20.0;
          historical_mean = dict_get climatology ''mean'' 25.0
      in if historical_mean > 0 then
           (let anom = (current_precip - historical_mean) / historical_mean
            in max 0.0 (min 1.0 ((anom + 1.0) / 2.0)))
         else 0.5)"

definition calculate_potential_et :: "raw_record \<Rightarrow> raw_record \<Rightarrow> real" where
  "calculate_potential_et lst_data gpm_data =
     (let temperature = field lst_data ''average'' 25.0 in max 0 (temperature * 0.3))"

definition safe_divide :: "real \<Rightarrow> real \<Rightarrow> real" where
  "safe_divide numerator denominator =
     (if denominator \<noteq> 0 then numerator / denominator else 0.0)"

definition analyze_surface_water :: "raw_record \<Rightarrow> real" where
  "analyze_surface_water landsat_data =
     (let ndwi = field landsat_data ''ndwi'' 0.3 in max 0.0 (min 1.0 ndwi))"

definition get_crop_water_requirements :: "CropData \<Rightarrow> string \<Rightarrow> real" where
  "get_crop_water_requirements crop_data stage = dict_get (water_requirements crop_data) stage 6.0"

definition get_crop_water_weights :: "string \<Rightarrow> (string, real) dict" where
  "get_crop_water_weights crop_type =
     [(''groundwater_anomaly'', 0.30),
      (''precipitation_anomaly'', 0.25),
      (''vegetation_water_stress'', 0.20),
      (''et_ratio'', 0.15),
      (''surface_water_availability'', 0.10)]"

definition assess_water_requirement_status :: "real \<Rightarrow> real \<Rightarrow> string" where
  "assess_water_requirement_status awli_value water_needs =
     (if awli_value \<ge> 0.7 then ''adequate''
      else if awli_value \<ge> 0.4 then ''moderate''
      else ''critical'')"

definition generate_irrigation_recommendations :: "real \<Rightarrow> string \<Rightarrow> string list" where
  "generate_irrigation_recommendations awli_value crop_type =
     (if awli_value < 0.3 then
        [''Immediate irrigation required'',
         ''Apply 15-20mm water for '' @ crop_type,
         ''Monitor soil moisture closely'']
      else if awli_value < 0.5 then
        [''Irrigation recommended within 2 days'',
         ''Apply 10-15mm water for '' @ crop_type,
         ''Check weather forecast before irrigation'']
      else [''Water levels adequate, continue monitoring''])"

definition normalize_groundwater_anomaly ::
  "grace_groundwater \<Rightarrow> gldas_soil_moisture \<Rightarrow> error + real" where
  \<comment> \<open>\<open>self._normalize_groundwater_anomaly(grace_data, gldas_data)\<close>: the attribute is read
      first, and the class defines no method of this name; there is no body to run, so a
      call can only end in the error of the lookup\<close>
  "normalize_groundwater_anomaly grace_data gldas_data =
     (case engine_getattr ''_normalize_groundwater_anomaly'' of
        Inl e \<Rightarrow> Inl e
      | Inr _ \<Rightarrow> Inl (AttributeError ''_normalize_groundwater_anomaly''))"

section \<open>AWLI (models.py and fusion\_engine.py)\<close>

record awli =
  awli_value :: real
  awli_crop_type :: string
  water_requirement_status :: string
  awli_components :: "(string, real) dict"
  irrigation_recommendations :: "string list"

definition AWLI ::
  "real \<Rightarrow> string \<Rightarrow> string \<Rightarrow> (string, real) dict \<Rightarrow> string list \<Rightarrow> error + awli" where
  "AWLI v crop status comps recs =
     (if \<not> in_unit v then Inl (ValidationError ''value'')
      else Inr \<lparr>awli_value = v, awli_crop_type = crop, water_requirement_status = status,
                awli_components = comps, irrigation_recommendations = recs\<rparr>)"

definition awli_get_confidence :: "awli \<Rightarrow> error + real" where
  \<comment> \<open>\<open>AWLI.get_confidence\<close>: \<open>np\<close> is read before \<open>np.std\<close> can be called\<close>
  "awli_get_confidence a =
     (if awli_components a = [] then Inr 0.5
      else case models_global ''np'' of
             Inl e \<Rightarrow> Inl e
           | Inr _ \<Rightarrow> Inr (min 1.0 (np_std (values_of (awli_components a)) * 2)))"

definition get_irrigation_need :: "awli \<Rightarrow> string" where
  "get_irrigation_need a =
     (if awli_value a \<ge> 0.7 then ''low''
      else if awli_value a \<ge> 0.4 then ''moderate''
      else ''high'')"

definition awli_water_stress_index :: "raw_data \<Rightarrow> real" where
  \<comment> \<open>the local \<open>water_stress_index\<close> of \<open>compute_agricultural_water_level_indicator\<close>\<close>
  "awli_water_stress_index raw_data =
     calculate_vegetation_water_stress
       (process_vegetation_indices (raw_get raw_data ''modis_vegetation''))
       (raw_get raw_data ''modis_lst'')"

definition awli_et_ratio :: "raw_data \<Rightarrow> real" where
  \<comment> \<open>the local \<open>et_ratio\<close> of \<open>compute_agricultural_water_level_indicator\<close>\<close>
  "awli_et_ratio raw_data =
     (let actual_et = field (raw_get raw_data ''ecostress'') ''et_actual'' 5.0;
          potential_et =
            calculate_potential_et (raw_get raw_data ''modis_lst'') (raw_get raw_data ''gpm'')
      in safe_divide actual_et potential_et)"

definition compute_agricultural_water_level_indicator :: "raw_data \<Rightarrow> string \<Rightarrow> error + awli" where
  "compute_agricultural_water_level_indicator raw_data crop_type =
     (let grace_data = process_grace_groundwater (raw_get raw_data ''grace'');
          gldas_data = process_gldas_soil_moisture (raw_get raw_data ''smap_l4'');
          ndvi_data = process_vegetation_indices (raw_get raw_data ''modis_vegetation'');
          water_stress_index = awli_water_stress_index raw_data;
          precipitation_anomaly =
            calculate_precipitation_anomaly (raw_get raw_data ''gpm'')
              get_precipitation_climatology;
          et_ratio = awli_et_ratio raw_data;
          surface_water = analyze_surface_water (raw_get raw_data ''landsat'');
          crop_data = lookup_crop crop_type;
          crop_water_needs = get_crop_water_requirements crop_data (phenology_stage ndvi_data);
          crop_weights = get_crop_water_weights crop_type
      in case normalize_groundwater_anomaly grace_data gldas_data of
           Inl e \<Rightarrow> Inl e
         | Inr groundwater \<Rightarrow>
      (let awli_components =
             [(''groundwater_anomaly'', groundwater),
              (''precipitation_anomaly'', precipitation_anomaly),
              (''vegetation_water_stress'', water_stress_index),
              (''et_ratio'', et_ratio),
              (''surface_water_availability'', surface_water)];
           v = sum_list (map (\<lambda>(key, c). c * dict_get crop_weights key 1.0) awli_components);
           status = assess_water_requirement_status v crop_water_needs;
           recs = generate_irrigation_recommendations v crop_type
       in AWLI v crop_type status awli_components recs))"

section \<open>The random generator\<close>

text \<open>
  \<open>np.random\<close> is process-wide state. It is modelled by the sequence of unit samples (each in
  the interval from 0 to 1) it is going to yield; a draw takes the first one and leaves the rest.
\<close>

type_synonym rng = "nat \<Rightarrow> real"

definition uniform :: "real \<Rightarrow> real \<Rightarrow> rng \<Rightarrow> real \<times> rng" where
  \<comment> \<open>\<open>np.random.uniform(low, high)\<close>\<close>
  "uniform low high g = (low + (high - low) * g 0, \<lambda>n. g (Suc n))"

section \<open>PAOI helpers (fusion\_engine.py)\<close>

record wind_data =
  speed :: real
  direction :: real

record aerosol_data =
  aod_550 :: real
  aod_865 :: real

record precipitation_forecast =
  next_6h :: real
  next_24h :: real
  forecast_probability :: real

definition detect_vegetation_anomalies :: "raw_record \<Rightarrow> real" where
  "detect_vegetation_anomalies vegetation_data =
     (let nd = field vegetation_data ''ndvi'' 0.5;
          pixel_reliability = field vegetation_data ''pixel_reliability'' 0
      in if nd > 0.6 \<and> pixel_reliability = 0 then 1.0
         else if nd < 0.4 \<or> pixel_reliability > 1 then 0.0
         else nd)"

definition calculate_humidity_proxy :: "raw_record \<Rightarrow> raw_record \<Rightarrow> error + real" where
  "calculate_humidity_proxy gpm_data temperature_data =
     (let precip = field gpm_data ''precipitation_cal'' 20.0;
          temp = field temperature_data ''average'' 25.0
      in case py_div precip (temp * 2) of
           Inl e \<Rightarrow> Inl e
         | Inr q \<Rightarrow> Inr (min 1.0 q))"

definition pest_optimal_temp :: "string \<Rightarrow> real" where
  \<comment> \<open>\<open>{'corn_borer': 25, 'aphids': 20, 'rust': 22}.get(pest, 25)\<close>\<close>
  "pest_optimal_temp pest =
     dict_get [(''corn_borer'', 25), (''aphids'', 20), (''rust'', 22)] pest 25"

definition model_pest_favorable_conditions :: "raw_record \<Rightarrow> real \<Rightarrow> string \<Rightarrow> real" where
  "model_pest_favorable_conditions temperature humidity pest =
     (let temp = field temperature ''average'' 25.0;
          temp_favorability = max 0.0 (1.0 - \<bar>temp - pest_optimal_temp pest\<bar> / 10.0)
      in (temp_favorability + humidity) / 2.0)"

definition extract_wind_data :: "raw_record \<Rightarrow> rng \<Rightarrow> wind_data \<times> rng" where
  \<comment> \<open>two draws, in the order of the dict literal\<close>
  "extract_wind_data gpm_data g =
     (case uniform 2 8 g of (s, g1) \<Rightarrow>
      case uniform 0 360 g1 of (d, g2) \<Rightarrow>
        (\<lparr>speed = s, direction = d\<rparr>, g2))"

definition get_precipitation_forecast :: "raw_record \<Rightarrow> precipitation_forecast" where
  "get_precipitation_forecast gpm_data =
     \<lparr>next_6h = field gpm_data ''precipitation_rate'' 2.0 * 6,
      next_24h = field gpm_data ''precipitation_cal'' 20.0,
      forecast_probability = field gpm_data ''probability_of_precipitation'' 0.3\<rparr>"

definition assess_application_weather_suitability ::
  "wind_data \<Rightarrow> precipitation_forecast \<Rightarrow> raw_record \<Rightarrow> real" where
  "assess_application_weather_suitability wind precip temp =
     (let wind_speed = speed wind;
          precip_prob = forecast_probability precip;
          temperature = field temp ''average'' 25.0;
          wind_score = max 0.0 (1.0 - wind_speed / 10.0);
          precip_score = 1.0 - precip_prob;
          temp_score = 1.0 - \<bar>temperature - 25\<bar> / 15.0
      in (wind_score + precip_score + temp_score) / 3.0)"

definition determine_phenology_stage :: "raw_record \<Rightarrow> string \<Rightarrow> string" where
  "determine_phenology_stage vegetation_data crop_type =
     (let nd = field vegetation_data ''ndvi'' 0.5
      in if nd < 0.3 then ''emergence''
         else if nd < 0.6 then ''vegetative''
         else if nd < 0.8 then ''reproductive''
         else ''maturity'')"

definition timing_scores :: "(string \<times> string, real) dict" where
  "timing_scores =
     [((''vegetative'', ''corn_borer''), 0.9),
      ((''reproductive'', ''corn_borer''), 0.7),
      ((''vegetative'', ''aphids''), 0.8),
      ((''reproductive'', ''aphids''), 0.6),
      ((''vegetative'', ''rust''), 0.5),
      ((''reproductive'', ''rust''), 0.9)]"

definition get_pesticide_timing_score :: "string \<Rightarrow> string \<Rightarrow> real" where
  "get_pesticide_timing_score stage pest = dict_get timing_scores (stage, pest) 0.6"

definition mock_aerosol_data :: "rng \<Rightarrow> aerosol_data \<times> rng" where
  "mock_aerosol_data g =
     (case uniform 0.1 0.5 g of (a, g1) \<Rightarrow>
      case uniform 0.05 0.3 g1 of (b, g2) \<Rightarrow>
        (\<lparr>aod_550 = a, aod_865 = b\<rparr>, g2))"

definition calculate_spray_drift_risk :: "wind_data \<Rightarrow> aerosol_data \<Rightarrow> real" where
  "calculate_spray_drift_risk wind aerosol =
     (let wind_speed = speed wind;
          aod = aod_550 aerosol;
          wind_risk = min 1.0 (wind_speed / 8.0);
          aerosol_risk = min 1.0 (aod / 0.4)
      in (wind_risk + aerosol_risk) / 2.0)"

record application_window =
  optimal_hours :: int
  next_optimal_time :: string
  avoid_times :: string
  window_confidence :: real

definition calculate_optimal_application_window :: "(string, real) dict \<Rightarrow> application_window" where
  "calculate_optimal_application_window components =
     (let base_score = np_mean (values_of components)
      in \<lparr>optimal_hours = max 0 (py_int (24 * base_score)),
          next_optimal_time = ''06:00-10:00'',
          avoid_times = ''14:00-18:00'',
          window_confidence = base_score\<rparr>)"

definition assess_environmental_impact :: "(string, real) dict \<Rightarrow> real" where
  "assess_environmental_impact components =
     (let weather_suitability = dict_get components ''weather_suitability'' 0.5;
          spray_drift_risk = 1.0 - dict_get components ''spray_drift_risk'' 0.5
      in (weather_suitability + spray_drift_risk) / 2.0)"

definition generate_pesticide_recommendations :: "real \<Rightarrow> string list" where
  "generate_pesticide_recommendations paoi_value =
     (if paoi_value > 0.7 then
        [''Optimal conditions for pesticide application'',
         ''Proceed with planned application'',
         ''Monitor weather conditions during application'']
      else if paoi_value > 0.4 then
        [''Moderate conditions for application'',
         ''Consider waiting for better conditions'',
         ''Use targeted application methods'']
      else
        [''Poor conditions for pesticide application'',
         ''Postpone application until conditions improve'',
         ''Consider alternative pest management strategies''])"

section \<open>PAOI (models.py and fusion\_engine.py)\<close>

record paoi =
  paoi_value :: real
  paoi_crop_type :: string
  target_pest :: string
  paoi_application_window :: application_window
  paoi_components :: "(string, real) dict"
  environmental_impact_score :: real
  paoi_recommendations :: "string list"

definition PAOI ::
  "real \<Rightarrow> string \<Rightarrow> string \<Rightarrow> application_window \<Rightarrow> (string, real) dict \<Rightarrow> real
   \<Rightarrow> string list \<Rightarrow> error + paoi" where
  "PAOI v crop pest window comps impact recs =
     (if \<not> in_unit v then Inl (ValidationError ''value'')
      else if \<not> in_unit impact then Inl (ValidationError ''environmental_impact_score'')
      else Inr \<lparr>paoi_value = v, paoi_crop_type = crop, target_pest = pest,
                paoi_application_window = window, paoi_components = comps,
                environmental_impact_score = impact, paoi_recommendations = recs\<rparr>)"

definition paoi_get_confidence :: "paoi \<Rightarrow> error + real" where
  "paoi_get_confidence p =
     (if paoi_components p = [] then Inr 0.5
      else case models_global ''np'' of
             Inl e \<Rightarrow> Inl e
           | Inr _ \<Rightarrow> Inr (min 1.0 (np_mean (values_of (paoi_components p)))))"

definition compute_pesticide_application_optimization_index ::
  "rng \<Rightarrow> raw_data \<Rightarrow> string \<Rightarrow> string \<Rightarrow> (error + paoi) \<times> rng" where
  \<comment> \<open>takes the generator and returns it after the draws made\<close>
  "compute_pesticide_application_optimization_index g raw_data crop_type pest =
     (let vegetation_data = raw_get raw_data ''modis_vegetation'';
          vegetation_stress = detect_vegetation_anomalies vegetation_data;
          temperature_data = raw_get raw_data ''modis_lst''
      in case calculate_humidity_proxy (raw_get raw_data ''gpm'') temperature_data of
           Inl e \<Rightarrow> (Inl e, g)
         | Inr humidity_proxy \<Rightarrow>
      (let pest_conditions = model_pest_favorable_conditions temperature_data humidity_proxy pest
       in case extract_wind_data (raw_get raw_data ''gpm'') g of (wind, g1) \<Rightarrow>
      (let forecast = get_precipitation_forecast (raw_get raw_data ''gpm'');
           application_weather =
             assess_application_weather_suitability wind forecast temperature_data;
           stage = determine_phenology_stage vegetation_data crop_type;
           phenology_score = get_pesticide_timing_score stage pest
       in case mock_aerosol_data g1 of (aerosol, g2) \<Rightarrow>
      (let spray_drift_risk = calculate_spray_drift_risk wind aerosol;
           components =
             [(''vegetation_stress'', vegetation_stress),
              (''pest_favorable_conditions'', pest_conditions),
              (''weather_suitability'', application_weather),
              (''phenology_timing'', phenology_score),
              (''spray_drift_risk'', 1.0 - spray_drift_risk)];
           v =
             vegetation_stress * 0.30 +
             pest_conditions * 0.25 +
             application_weather * 0.20 +
             phenology_score * 0.15 +
             (1.0 - spray_drift_risk) * 0.10;
           window = calculate_optimal_application_window components;
           impact = assess_environmental_impact components;
           recs = generate_pesticide_recommendations v
       in (PAOI v crop_type pest window components impact recs, g2)))))"

section \<open>Alerts and integrated recommendations (fusion\_engine.py)\<close>

definition generate_integrated_recommendations :: "usmi \<Rightarrow> awli \<Rightarrow> paoi \<Rightarrow> string set" where
  \<comment> \<open>\<open>list(set(recommendations))\<close>: the order of the result is that of a hash set, so the
      result is given as the set of its elements\<close>
  "generate_integrated_recommendations u a p =
     (let recommendations =
            usmi_recommendations u @ irrigation_recommendations a @ paoi_recommendations p;
          recommendations =
            (if usmi_value u < 0.4 \<and> awli_value a < 0.4 then
               recommendations @
                 [''CRITICAL: Both soil moisture and water levels are low - immediate action required'']
             else if paoi_value p > 0.7 \<and> usmi_value u > 0.6 then
               recommendations @ [''Optimal conditions for integrated crop management'']
             else recommendations)
      in set recommendations)"

definition generate_alerts :: "usmi \<Rightarrow> awli \<Rightarrow> paoi \<Rightarrow> string list" where
  "generate_alerts u a p =
     (let alerts = [];
          alerts = (if usmi_value u < 0.2
                    then alerts @ [''CRITICAL: Extremely low soil moisture detected'']
                    else alerts);
          alerts = (if awli_value a < 0.2
                    then alerts @ [''CRITICAL: Critical water shortage detected'']
                    else alerts);
          alerts = (if paoi_value p < 0.3
                    then alerts @ [''WARNING: Poor conditions for pest management'']
                    else alerts)
      in alerts)"

section \<open>Dataset acquisition (nasa\_manager.py)\<close>

text \<open>
  \<open>_fetch_dataset\<close> dispatches on the dataset id to one of seven fetch routines. The
  routines of the repository build synthetic records; what they stand for is a remote
  source that can fail. The source is therefore a parameter: \<open>src f n\<close> is the outcome of
  the call that attempt \<open>n\<close> of one fetch task makes to routine \<open>f\<close>, a record or the
  exception raised. Every task has its own attempt counter, so the outcome of a task does
  not depend on how \<open>asyncio.gather\<close> interleaves it with the others.
\<close>

datatype fetcher =
    SmapSoilMoisture string
  | ModisVegetation
  | ModisLst
  | GpmPrecipitation
  | EcostressData
  | GraceGroundwater
  | LandsatData

type_synonym 'r data_source = "fetcher \<Rightarrow> nat \<Rightarrow> error + 'r"

datatype 'r fetched = Fetched 'r | EmptyDict

record fetch_log =
  attempts :: nat
  sleeps :: "nat list"

definition max_retries :: nat where
  "max_retries = 3"

definition known_datasets :: "string list" where
  \<comment> \<open>the ids the dispatch knows, as listed in the default request of the fusion service\<close>
  "known_datasets =
     [''smap_l3'', ''smap_l4'', ''modis_vegetation'', ''modis_lst'',
      ''gpm'', ''ecostress'', ''grace'', ''landsat'']"

definition dispatch :: "'r data_source \<Rightarrow> string \<Rightarrow> nat \<Rightarrow> error + 'r" where
  \<comment> \<open>the body of the \<open>try\<close> block\<close>
  "dispatch src dataset_id attempt =
     (if dataset_id = ''smap_l3'' then src (SmapSoilMoisture ''l3'') attempt
      else if dataset_id = ''smap_l4'' then src (SmapSoilMoisture ''l4'') attempt
      else if dataset_id = ''modis_vegetation'' then src ModisVegetation attempt
      else if dataset_id = ''modis_lst'' then src ModisLst attempt
      else if dataset_id = ''gpm'' then src GpmPrecipitation attempt
      else if dataset_id = ''ecostress'' then src EcostressData attempt
      else if dataset_id = ''grace'' then src GraceGroundwater attempt
      else if dataset_id = ''landsat'' then src LandsatData attempt
      else Inl (ValueError (''Unknown dataset: '' @ dataset_id)))"

fun fetch_loop ::
  "'r data_source \<Rightarrow> string \<Rightarrow> nat list \<Rightarrow> fetch_log \<Rightarrow> (error + 'r fetched) \<times> fetch_log" where
  \<comment> \<open>\<open>for attempt in range(max_retries)\<close>, over the attempts still to come; the log counts
      the iterations entered and records every \<open>asyncio.sleep\<close>\<close>
  "fetch_loop src dataset_id [] lg = (Inr EmptyDict, lg)"
| "fetch_loop src dataset_id (attempt # rest) lg =
     (let log1 = lg\<lparr>attempts := attempts lg + 1\<rparr>
      in case dispatch src dataset_id attempt of
           Inr r \<Rightarrow> (Inr (Fetched r), log1)
         | Inl e \<Rightarrow>
             if attempt = max_retries - 1 then (Inl e, log1)
             else fetch_loop src dataset_id rest (log1\<lparr>sleeps := sleeps log1 @ [2 ^ attempt]\<rparr>))"

definition fetch_dataset ::
  "'r data_source \<Rightarrow> string \<Rightarrow> (error + 'r fetched) \<times> fetch_log" where
  "fetch_dataset src dataset_id =
     fetch_loop src dataset_id [0..<max_retries] \<lparr>attempts = 0, sleeps = []\<rparr>"

definition organize :: "error + 'r fetched \<Rightarrow> 'r fetched option" where
  \<comment> \<open>a slot of \<open>data_results\<close>: \<open>None\<close> for a task that ended in an exception\<close>
  "organize result = (case result of Inl e \<Rightarrow> None | Inr r \<Rightarrow> Some r)"

definition bulk_data_fetch ::
  "'r data_source \<Rightarrow> string list \<Rightarrow> (string, 'r fetched option) dict" where
  \<comment> \<open>\<open>asyncio.gather(*tasks, return_exceptions=True)\<close> runs every task to its end and
      returns the results in the order of the tasks\<close>
  "bulk_data_fetch src datasets =
     (let results = map (\<lambda>dataset. fst (fetch_dataset src dataset)) datasets
      in fold (\<lambda>(dataset, result) data_results. dict_set data_results dataset (organize result))
           (zip datasets results) [])"

section \<open>Concrete inputs\<close>

definition raw_example :: raw_data where
  "raw_example =
     [(''smap_l3'', \<lparr>numeric = [(''surface_moisture'', 0.2)], quality_flag = Some ''good''\<rparr>),
      (''gpm'', \<lparr>numeric = [(''precipitation_cal'', 10)], quality_flag = Some ''marginal''\<rparr>),
      (''modis_lst'', \<lparr>numeric = [(''day_lst'', 41)], quality_flag = Some ''cloudy''\<rparr>),
      (''grace'', \<lparr>numeric = [(''groundwater_anomaly'', -2)], quality_flag = None\<rparr>)]"

definition usmi_contributing :: "string list" where
  \<comment> \<open>the datasets whose weights enter the USMI sum\<close>
  "usmi_contributing = [''smap_l3'', ''smap_l4'', ''gpm'', ''modis_lst'', ''ecostress'']"

definition spec_usmi_uncertainty :: "raw_data \<Rightarrow> real" where
  \<comment> \<open>the specification's wording: the sum runs over the contributing datasets' weights\<close>
  "spec_usmi_uncertainty raw_data =
     min 0.5 (\<Sum>d\<leftarrow>usmi_contributing.
                (1 - dict_get (assess_data_quality raw_data) d 1.0) * 0.1)"

definition raw_good_and_grace :: raw_data where
  \<comment> \<open>the five USMI datasets flagged good, and GRACE, which carries no quality flag\<close>
  "raw_good_and_grace =
     [(''smap_l3'', \<lparr>numeric = [(''surface_moisture'', 0.2)], quality_flag = Some ''good''\<rparr>),
      (''smap_l4'', \<lparr>numeric = [(''root_zone_moisture'', 0.3)], quality_flag = Some ''good''\<rparr>),
      (''gpm'', \<lparr>numeric = [(''precipitation_cal'', 10)], quality_flag = Some ''good''\<rparr>),
      (''modis_lst'', \<lparr>numeric = [(''day_lst'', 30)], quality_flag = Some ''good''\<rparr>),
      (''ecostress'', \<lparr>numeric = [(''et_actual'', 4)], quality_flag = Some ''good''\<rparr>),
      (''grace'', \<lparr>numeric = [(''groundwater_anomaly'', -2)], quality_flag = None\<rparr>)]"

definition raw_all_good :: raw_data where
  "raw_all_good =
     [(''smap_l3'', \<lparr>numeric = [(''surface_moisture'', 0.2)], quality_flag = Some ''good''\<rparr>),
      (''gpm'', \<lparr>numeric = [(''precipitation_cal'', 10)], quality_flag = Some ''good''\<rparr>)]"

definition rng_zero :: rng where
  \<comment> \<open>every unit sample is 0: each draw returns the lower end of its range\<close>
  "rng_zero = (\<lambda>n. 0)"

definition rng_half :: rng where
  \<comment> \<open>every unit sample is 1/2: each draw returns the middle of its range\<close>
  "rng_half = (\<lambda>n. 1 / 2)"

definition rng_mixed :: rng where
  \<comment> \<open>as \<open>rng_half\<close> but for the second and fourth samples\<close>
  "rng_mixed = (\<lambda>n. if n = 1 \<or> n = 3 then 1 / 4 else 1 / 2)"

definition raw_high_et :: raw_data where
  \<comment> \<open>an ECOSTRESS record whose actual evapotranspiration is 7.8 mm/day\<close>
  "raw_high_et = [(''ecostress'', \<lparr>numeric = [(''et_actual'', 7.8)], quality_flag = None\<rparr>)]"

definition raw_dense_hot :: raw_data where
  \<comment> \<open>dense vegetation (NDVI 0.8) under a land surface temperature of 32 degrees\<close>
  "raw_dense_hot =
     [(''modis_vegetation'', \<lparr>numeric = [(''ndvi'', 0.8)], quality_flag = None\<rparr>),
      (''modis_lst'', \<lparr>numeric = [(''average'', 32)], quality_flag = Some ''good''\<rparr>)]"

definition awli_two_components :: awli where
  "awli_two_components =
     \<lparr>awli_value = 0.5, awli_crop_type = ''corn'', water_requirement_status = ''moderate'',
      awli_components = [(''et_ratio'', 0.2), (''surface_water_availability'', 0.8)],
      irrigation_recommendations = [''Water levels adequate, continue monitoring'']\<rparr>"

definition spec_environmental_impact :: "real \<Rightarrow> real \<Rightarrow> real" where
  \<comment> \<open>the specification's wording: the average of weather suitability and \<open>1 - drift_risk\<close>\<close>
  "spec_environmental_impact weather_suitability drift_risk =
     (weather_suitability + (1 - drift_risk)) / 2"

definition flaky_source :: "string data_source" where
  \<comment> \<open>GPM fails twice and then answers, GRACE fails every time, the rest answer at once\<close>
  "flaky_source f n =
     (case f of
        GpmPrecipitation \<Rightarrow>
          if n < 2 then Inl (FetchFailure ''timeout'') else Inr ''gpm record''
      | GraceGroundwater \<Rightarrow> Inl (FetchFailure ''timeout'')
      | _ \<Rightarrow> Inr ''record'')"

section \<open>Quality weights\<close>

lemma map_of_assess_fold:
  "map_of (fold (\<lambda>(dataset, data) qw. dict_set qw dataset (quality_weight data)) raw acc) k =
     (case map_of (rev raw) k of
        Some data \<Rightarrow> Some (quality_weight data)
      | None \<Rightarrow> map_of acc k)"
  unfolding dict_set_def
proof (induction raw arbitrary: acc)
  case Nil
  then show ?case by simp
next
  case (Cons p raw)
  obtain d r where p: "p = (d, r)" by (cases p)
  show ?case
    by (simp add: p Cons.IH update_conv' map_add_def split: option.splits)
qed

lemma map_of_assess:
  "map_of (assess_data_quality raw) k = map_option quality_weight (map_of (rev raw) k)"
  by (simp add: assess_data_quality_def map_of_assess_fold split: option.splits)

lemma quality_weight_cases:
  "quality_weight data = 1 \<or> quality_weight data = 0.7 \<or> quality_weight data = 0.4
     \<or> quality_weight data = 0.8"
  by (simp add: quality_weight_def split: option.splits)

lemma quality_weight_unit: "0 < quality_weight data \<and> quality_weight data \<le> 1"
  using quality_weight_cases [of data] by auto

lemma update_fresh:
  "k \<notin> fst ` set al \<Longrightarrow> AList.update k v al = al @ [(k, v)]"
  by (induction al) auto

lemma assess_fold_distinct:
  "distinct (map fst raw) \<Longrightarrow> fst ` set raw \<inter> fst ` set acc = {} \<Longrightarrow>
   fold (\<lambda>(dataset, data) qw. dict_set qw dataset (quality_weight data)) raw acc =
     acc @ map (\<lambda>(dataset, data). (dataset, quality_weight data)) raw"
proof (induction raw arbitrary: acc)
  case Nil
  then show ?case by simp
next
  case (Cons p raw)
  obtain d r where p: "p = (d, r)" by (cases p)
  from Cons.prems have fresh: "d \<notin> fst ` set acc" by (auto simp: p)
  from Cons.prems have d: "distinct (map fst raw)" by simp
  from Cons.prems have "fst ` set raw \<inter> fst ` set (acc @ [(d, quality_weight r)]) = {}"
    by (auto simp: p)
  from Cons.IH [OF d this] show ?case
    by (simp add: p dict_set_def update_fresh [OF fresh])
qed

lemma assess_distinct:
  "distinct (map fst raw) \<Longrightarrow>
   assess_data_quality raw = map (\<lambda>(dataset, data). (dataset, quality_weight data)) raw"
  using assess_fold_distinct [of raw "[]"] by (simp add: assess_data_quality_def)

lemma uncertainties_fold:
  "fold (\<lambda>(key, weight) acc. acc @ [f weight]) ws acc =
     acc @ map (\<lambda>(key, weight). f weight) ws"
  by (induction ws arbitrary: acc) auto

lemma propagate_uncertainty_sum:
  "propagate_uncertainty comps ws = min 0.5 (\<Sum>(key, weight)\<leftarrow>ws. (1 - weight) * 0.1)"
  unfolding propagate_uncertainty_def Let_def uncertainties_fold by simp

text \<open>
  Claim C7. For every raw-data map, \<open>_assess_data_quality\<close> gives each present dataset exactly
  one weight: quality flag \<open>good\<close> gives 1.0, \<open>marginal\<close> 0.7, any other flag 0.4, no flag at
  all 0.8; every weight lies in [0,1], and the weights have the keys of the raw-data map.
\<close>

theorem assess_data_quality_tiers:
  assumes "distinct (map fst raw_data)" and "(dataset, data) \<in> set raw_data"
  shows "map_of (assess_data_quality raw_data) dataset =
           Some (case quality_flag data of
                   None \<Rightarrow> 0.8
                 | Some flag \<Rightarrow>
                     if flag = ''good'' then 1.0 else if flag = ''marginal'' then 0.7 else 0.4)
         \<and> 0 \<le> dict_get (assess_data_quality raw_data) dataset 1.0
         \<and> dict_get (assess_data_quality raw_data) dataset 1.0 \<le> 1
         \<and> map fst (assess_data_quality raw_data) = map fst raw_data"
proof -
  have m: "map_of raw_data dataset = Some data"
    using assms by simp
  have w: "map_of (assess_data_quality raw_data) dataset = Some (quality_weight data)"
    using assms(1) by (simp add: assess_distinct map_of_map m)
  have k: "map fst (assess_data_quality raw_data) = map fst raw_data"
    using assms(1) by (simp add: assess_distinct split_def comp_def)
  have q: "quality_weight data = (case quality_flag data of
                   None \<Rightarrow> 0.8
                 | Some flag \<Rightarrow>
                     if flag = ''good'' then 1.0 else if flag = ''marginal'' then 0.7 else 0.4)"
    by (simp add: quality_weight_def split: option.splits)
  have g: "dict_get (assess_data_quality raw_data) dataset 1.0 = quality_weight data"
    by (simp add: dict_get_def w)
  show ?thesis
    using w k q g quality_weight_unit [of data] by simp
qed

theorem assess_data_quality_tiers_witness:
  "distinct (map fst raw_example)
   \<and> map_of (assess_data_quality raw_example) ''gpm'' = Some 0.7
   \<and> map_of (assess_data_quality raw_example) ''grace'' = Some 0.8
   \<and> map fst (assess_data_quality raw_example) = map fst raw_example"
proof -
  have d: "distinct (map fst raw_example)" by (simp add: raw_example_def)
  have g: "(''gpm'', \<lparr>numeric = [(''precipitation_cal'', 10)], quality_flag = Some ''marginal''\<rparr>)
             \<in> set raw_example"
    by (simp add: raw_example_def)
  have r: "(''grace'', \<lparr>numeric = [(''groundwater_anomaly'', -2)], quality_flag = None\<rparr>)
             \<in> set raw_example"
    by (simp add: raw_example_def)
  show ?thesis
    using d assess_data_quality_tiers [OF d g] assess_data_quality_tiers [OF d r] by simp
qed

lemma weight_get_unit:
  "0 < dict_get (assess_data_quality raw) k 1.0 \<and> dict_get (assess_data_quality raw) k 1.0 \<le> 1"
  using quality_weight_unit
  by (auto simp: dict_get_def map_of_assess split: option.splits)

lemma spatial_normalize_unit:
  "0 \<le> spatial_normalize v t \<and> spatial_normalize v t \<le> 1"
  by (simp add: spatial_normalize_def split: prod.splits)

lemma temporal_normalize_week:
  "\<exists>q. temporal_normalize p ''precipitation'' 7 = Inr q \<and> 0 \<le> q \<and> q \<le> 1"
  by (simp add: temporal_normalize_def py_div_def)

lemma calculate_temperature_stress_unit:
  "0 \<le> calculate_temperature_stress t \<and> calculate_temperature_stress t \<le> 1"
  by (simp add: calculate_temperature_stress_def Let_def)

lemma calculate_et_deficit_unit:
  "0 \<le> calculate_et_deficit e p \<and> calculate_et_deficit e p \<le> 1"
  by (simp add: calculate_et_deficit_def Let_def)

lemma update_values:
  "(k', w) \<in> set (AList.update k v al) \<Longrightarrow> w = v \<or> (k', w) \<in> set al"
  by (induction al) (auto split: if_splits)

lemma assess_fold_values:
  "(k, w) \<in> set (fold (\<lambda>(dataset, data) qw. dict_set qw dataset (quality_weight data)) raw acc)
   \<Longrightarrow> (\<exists>data. w = quality_weight data) \<or> (k, w) \<in> set acc"
proof (induction raw arbitrary: acc)
  case Nil
  then show ?case by simp
next
  case (Cons p raw)
  obtain d r where p: "p = (d, r)" by (cases p)
  from Cons.prems Cons.IH [of "dict_set acc d (quality_weight r)"]
  have "(\<exists>data. w = quality_weight data) \<or> (k, w) \<in> set (dict_set acc d (quality_weight r))"
    by (simp add: p)
  then show ?case
    by (auto simp: dict_set_def dest: update_values)
qed

lemma assess_values_le_one:
  "(k, w) \<in> set (assess_data_quality raw) \<Longrightarrow> w \<le> 1"
  using assess_fold_values [of k w raw "[]"] quality_weight_unit
  by (auto simp: assess_data_quality_def)

lemma uncertainty_terms_nonneg:
  "\<forall>p\<in>set ws. snd p \<le> 1 \<Longrightarrow>
   0 \<le> (\<Sum>(key, weight)\<leftarrow>ws. (1 - weight) * (0.1::real))"
  by (induction ws) (auto simp: split_def)

lemma propagate_uncertainty_bounds:
  "0 \<le> propagate_uncertainty comps (assess_data_quality raw)
   \<and> propagate_uncertainty comps (assess_data_quality raw) \<le> 0.5"
proof -
  have "\<forall>p\<in>set (assess_data_quality raw). snd p \<le> 1"
    using assess_values_le_one [of _ _ raw] by auto
  from uncertainty_terms_nonneg [OF this] show ?thesis
    by (simp add: propagate_uncertainty_sum)
qed

lemma weighted_term:
  "0 \<le> a \<Longrightarrow> a \<le> 1 \<Longrightarrow> 0 < w \<Longrightarrow> w \<le> 1 \<Longrightarrow> 0 \<le> c \<Longrightarrow>
   0 \<le> a * c * w \<and> a * c * w \<le> (c::real)"
proof -
  assume h: "0 \<le> a" "a \<le> 1" "0 < w" "w \<le> 1" "0 \<le> c"
  have "a * w \<le> 1 * 1" using h by (intro mult_mono) auto
  then have "c * (a * w) \<le> c * 1" using h by (intro mult_left_mono) auto
  moreover have "0 \<le> a * c * w" using h by simp
  ultimately show ?thesis by (simp add: mult_ac)
qed

lemma usmi_sum_unit:
  assumes "0 \<le> a1 \<and> a1 \<le> 1" "0 \<le> a2 \<and> a2 \<le> 1" "0 \<le> a3 \<and> a3 \<le> 1"
    "0 \<le> a4 \<and> a4 \<le> 1" "0 \<le> a5 \<and> a5 \<le> 1"
    "0 < w1 \<and> w1 \<le> 1" "0 < w2 \<and> w2 \<le> 1" "0 < w3 \<and> w3 \<le> 1"
    "0 < w4 \<and> w4 \<le> 1" "0 < w5 \<and> w5 \<le> 1"
  shows "in_unit (a1 * 0.35 * w1 + a2 * 0.25 * w2 + a3 * 0.20 * w3 + a4 * 0.15 * w4
                  + a5 * 0.05 * (w5::real))"
proof -
  define t1 where "t1 = a1 * 0.35 * w1"
  define t2 where "t2 = a2 * 0.25 * w2"
  define t3 where "t3 = a3 * 0.20 * w3"
  define t4 where "t4 = a4 * 0.15 * w4"
  define t5 where "t5 = a5 * 0.05 * w5"
  have "0 \<le> t1 \<and> t1 \<le> 0.35"
    unfolding t1_def using assms by (intro weighted_term) auto
  moreover have "0 \<le> t2 \<and> t2 \<le> 0.25"
    unfolding t2_def using assms by (intro weighted_term) auto
  moreover have "0 \<le> t3 \<and> t3 \<le> 0.20"
    unfolding t3_def using assms by (intro weighted_term) auto
  moreover have "0 \<le> t4 \<and> t4 \<le> 0.15"
    unfolding t4_def using assms by (intro weighted_term) auto
  moreover have "0 \<le> t5 \<and> t5 \<le> 0.05"
    unfolding t5_def using assms by (intro weighted_term) auto
  ultimately have "in_unit (t1 + t2 + t3 + t4 + t5)"
    by (simp add: in_unit_def)
  then show ?thesis
    by (simp only: t1_def t2_def t3_def t4_def t5_def)
qed

lemma compute_usmi_returns:
  "\<exists>u. compute_unified_soil_moisture_index raw = Inr u
       \<and> usmi_confidence u = 1 - usmi_uncertainty raw \<and> in_unit (usmi_value u)"
proof -
  obtain q where q: "temporal_normalize (process_gpm_precipitation (raw_get raw ''gpm''))
                       ''precipitation'' 7 = Inr q" "0 \<le> q \<and> q \<le> 1"
    using temporal_normalize_week by blast
  let ?qw = "assess_data_quality raw"
  have v: "in_unit
     (spatial_normalize (process_smap_surface (raw_get raw ''smap_l3'')) ''soil_moisture'' * 0.35
        * dict_get ?qw ''smap_l3'' 1.0 +
      spatial_normalize (process_smap_root_zone (raw_get raw ''smap_l4'')) ''soil_moisture'' * 0.25
        * dict_get ?qw ''smap_l4'' 1.0 +
      q * 0.20 * dict_get ?qw ''gpm'' 1.0 +
      calculate_temperature_stress (process_modis_lst (raw_get raw ''modis_lst'')) * 0.15
        * dict_get ?qw ''modis_lst'' 1.0 +
      calculate_et_deficit (process_ecostress_et (raw_get raw ''ecostress''))
          (process_gpm_precipitation (raw_get raw ''gpm'')) * 0.05
        * dict_get ?qw ''ecostress'' 1.0)"
    by (rule usmi_sum_unit)
       (rule spatial_normalize_unit q(2) calculate_temperature_stress_unit
          calculate_et_deficit_unit weight_get_unit)+
  have u: "propagate_uncertainty c ?qw = usmi_uncertainty raw" for c
    by (simp add: usmi_uncertainty_def propagate_uncertainty_sum)
  have b: "0 \<le> usmi_uncertainty raw \<and> usmi_uncertainty raw \<le> 0.5"
    using propagate_uncertainty_bounds [of "[]" raw] by (simp add: usmi_uncertainty_def)
  have c: "in_unit (max 0 (1 - usmi_uncertainty raw))"
    using b by (simp add: in_unit_def)
  have m: "max 0 (1 - usmi_uncertainty raw) = 1 - usmi_uncertainty raw"
    using b by simp
  show ?thesis
    unfolding compute_unified_soil_moisture_index_def Let_def
    using v c m by (simp add: q(1) u USMI_def)
qed

section \<open>USMI confidence and uncertainty\<close>

text \<open>
  Claim C10. For every raw-data map the USMI computation returns, and the confidence it
  reports is at least 0.5 (and at most 1): the propagated uncertainty is capped at 0.5 before
  the confidence \<open>1 - uncertainty\<close> is taken.
\<close>

theorem usmi_confidence_at_least_half:
  "\<exists>u. compute_unified_soil_moisture_index raw_data = Inr u
       \<and> 0.5 \<le> usmi_confidence u \<and> usmi_confidence u \<le> 1"
proof -
  obtain u where u: "compute_unified_soil_moisture_index raw_data = Inr u"
      "usmi_confidence u = 1 - usmi_uncertainty raw_data"
    using compute_usmi_returns by blast
  have "0 \<le> usmi_uncertainty raw_data \<and> usmi_uncertainty raw_data \<le> 0.5"
    using propagate_uncertainty_bounds [of "[]" raw_data] by (simp add: usmi_uncertainty_def)
  then show ?thesis using u by auto
qed

text \<open>
  Claim C8, as the code has it. \<open>_propagate_uncertainty\<close> loops over every entry of the
  weights dict, that is over every dataset of the raw-data map, contributing to the USMI sum or
  not: the uncertainty is \<open>min(0.5, \<Sum> (1 - weight) * 0.1)\<close> over all datasets present,
  the confidence is \<open>1 - uncertainty\<close>, and when every dataset present has weight 1.0 the
  uncertainty is 0 and the confidence 1.
\<close>

theorem usmi_uncertainty_all_datasets:
  assumes "distinct (map fst raw_data)"
  shows "usmi_uncertainty raw_data =
           min 0.5 (\<Sum>(dataset, data)\<leftarrow>raw_data. (1 - quality_weight data) * 0.1)
         \<and> (\<exists>u. compute_unified_soil_moisture_index raw_data = Inr u
                \<and> usmi_confidence u = 1 - usmi_uncertainty raw_data)
         \<and> ((\<forall>p\<in>set raw_data. quality_weight (snd p) = 1) \<longrightarrow>
              usmi_uncertainty raw_data = 0
              \<and> (\<exists>u. compute_unified_soil_moisture_index raw_data = Inr u
                     \<and> usmi_confidence u = 1))"
proof -
  have s: "usmi_uncertainty raw_data =
           min 0.5 (\<Sum>(dataset, data)\<leftarrow>raw_data. (1 - quality_weight data) * 0.1)"
    using assms
    by (simp add: usmi_uncertainty_def propagate_uncertainty_sum assess_distinct
          comp_def split_def)
  have z: "(\<Sum>(dataset, data)\<leftarrow>raw_data. (1 - quality_weight data) * 0.1) = 0"
    if "\<forall>p\<in>set raw_data. quality_weight (snd p) = 1"
    using that by (induction raw_data) (auto simp: split_def)
  obtain u where u: "compute_unified_soil_moisture_index raw_data = Inr u"
      "usmi_confidence u = 1 - usmi_uncertainty raw_data"
    using compute_usmi_returns by blast
  show ?thesis
    using s u z by auto
qed

theorem usmi_uncertainty_all_datasets_witness:
  "distinct (map fst raw_all_good)
   \<and> usmi_uncertainty raw_all_good = 0
   \<and> (\<exists>u. compute_unified_soil_moisture_index raw_all_good = Inr u \<and> usmi_confidence u = 1)"
proof -
  have d: "distinct (map fst raw_all_good)" by (simp add: raw_all_good_def)
  have g: "\<forall>p\<in>set raw_all_good. quality_weight (snd p) = 1"
    by (simp add: raw_all_good_def quality_weight_def)
  show ?thesis
    using d g usmi_uncertainty_all_datasets [OF d] by blast
qed

text \<open>
  The sum is not restricted to the contributing datasets: with the five USMI datasets flagged
  good and a GRACE record without flag (weight 0.8), every contributing weight is 1.0, yet the
  uncertainty is 0.02 and the confidence 0.98.
\<close>

theorem usmi_uncertainty_counterexample:
  "dict_get (assess_data_quality raw_good_and_grace) ''smap_l3'' 1.0 = 1
   \<and> dict_get (assess_data_quality raw_good_and_grace) ''smap_l4'' 1.0 = 1
   \<and> dict_get (assess_data_quality raw_good_and_grace) ''gpm'' 1.0 = 1
   \<and> dict_get (assess_data_quality raw_good_and_grace) ''modis_lst'' 1.0 = 1
   \<and> dict_get (assess_data_quality raw_good_and_grace) ''ecostress'' 1.0 = 1
   \<and> spec_usmi_uncertainty raw_good_and_grace = 0
   \<and> usmi_uncertainty raw_good_and_grace = 1 / 50
   \<and> map_sum id usmi_confidence (compute_unified_soil_moisture_index raw_good_and_grace)
       = Inr (49 / 50)"
proof -
  have d: "distinct (map fst raw_good_and_grace)" by (simp add: raw_good_and_grace_def)
  have a: "assess_data_quality raw_good_and_grace =
      [(''smap_l3'', 1), (''smap_l4'', 1), (''gpm'', 1), (''modis_lst'', 1), (''ecostress'', 1),
       (''grace'', 0.8)]"
    unfolding assess_distinct [OF d] by (simp add: raw_good_and_grace_def quality_weight_def)
  have u: "usmi_uncertainty raw_good_and_grace = 1 / 50"
    by (simp add: usmi_uncertainty_def propagate_uncertainty_sum a)
  obtain r where r: "compute_unified_soil_moisture_index raw_good_and_grace = Inr r"
      "usmi_confidence r = 1 - usmi_uncertainty raw_good_and_grace"
    using compute_usmi_returns by blast
  have c: "map_sum id usmi_confidence (compute_unified_soil_moisture_index raw_good_and_grace)
       = Inr (49 / 50)"
    by (simp add: r u)
  have s: "spec_usmi_uncertainty raw_good_and_grace = 0"
    by (simp add: spec_usmi_uncertainty_def usmi_contributing_def a dict_get_def)
  show ?thesis
    using u c s by (simp add: a dict_get_def)
qed

section \<open>AWLI\<close>

lemmas raw_defs = raw_get_def dict_get_def field_def empty_record_def

text \<open>
  Claim C1, at inputs where the code leaves the unit interval. The evapotranspiration ratio
  is the bare quotient of \<open>_safe_divide\<close>: with \<open>et_actual = 7.8\<close> and no temperature record
  the potential evapotranspiration is \<open>25 * 0.3 = 7.5\<close> and the ratio is 1.04. The water
  stress interpolation \<open>(ndvi - 0.4) / 0.2\<close> is reached with NDVI 0.8 once the temperature is
  30 or more, and yields 2. Neither value is clamped, unlike the other normalizers.
\<close>

theorem awli_normalizers_leave_unit_interval:
  "awli_et_ratio raw_high_et = 26 / 25
   \<and> \<not> in_unit (awli_et_ratio raw_high_et)
   \<and> awli_water_stress_index raw_dense_hot = 2
   \<and> \<not> in_unit (awli_water_stress_index raw_dense_hot)"
  by (simp add: awli_et_ratio_def awli_water_stress_index_def raw_high_et_def raw_dense_hot_def
        raw_defs calculate_potential_et_def safe_divide_def process_vegetation_indices_def
        calculate_vegetation_water_stress_def in_unit_def)

text \<open>
  Claim C4, at the failing input. The crop lookup does fall back to the corn entry for
  \<open>dragonfruit\<close>, but the computation then reads the attribute
  \<open>_normalize_groundwater_anomaly\<close>, which the engine class does not define, and raises
  \<open>AttributeError\<close>, whatever the raw-data map.
\<close>

theorem awli_unmapped_crop_raises:
  "lookup_crop ''dragonfruit'' = corn
   \<and> compute_agricultural_water_level_indicator raw_data ''dragonfruit''
       = Inl (AttributeError ''_normalize_groundwater_anomaly'')"
  by (simp add: lookup_crop_def py_lower_def lower_char_def crop_databases_def dict_get_def
        compute_agricultural_water_level_indicator_def Let_def
        normalize_groundwater_anomaly_def engine_getattr_def engine_attributes_def)

text \<open>
  Claim C9, at the failing input. With the two component values 0.2 and 0.8 the claimed
  confidence is \<open>min(1, 0.3 * 2) = 0.6\<close>; \<open>get_confidence\<close> raises \<open>NameError\<close> instead,
  because \<open>models.py\<close> never imports \<open>numpy\<close>.
\<close>

theorem awli_get_confidence_raises:
  "awli_get_confidence awli_two_components = Inl (NameError ''np'')
   \<and> min 1 (np_std (values_of (awli_components awli_two_components)) * 2) = 3 / 5"
proof -
  have s: "sqrt (9 / 100) = 3 / 10"
    by (rule real_sqrt_unique) (simp_all add: power2_eq_square)
  have "np_std (values_of (awli_components awli_two_components)) = 3 / 10"
    by (simp add: awli_two_components_def values_of_def np_std_def np_mean_def
          power2_eq_square s)
  then show ?thesis
    by (simp add: awli_get_confidence_def awli_two_components_def models_global_def
          models_module_names_def)
qed

section \<open>PAOI\<close>

lemmas paoi_defs =
  compute_pesticide_application_optimization_index_def Let_def raw_defs
  detect_vegetation_anomalies_def calculate_humidity_proxy_def py_div_def
  model_pest_favorable_conditions_def pest_optimal_temp_def extract_wind_data_def uniform_def
  get_precipitation_forecast_def assess_application_weather_suitability_def
  determine_phenology_stage_def get_pesticide_timing_score_def timing_scores_def
  mock_aerosol_data_def calculate_spray_drift_risk_def calculate_optimal_application_window_def
  assess_environmental_impact_def generate_pesticide_recommendations_def PAOI_def in_unit_def
  np_mean_def values_of_def py_int_def

lemma paoi_at_rng_zero:
  "fst (compute_pesticide_application_optimization_index rng_zero [] ''corn'' ''general'') =
     Inr \<lparr>paoi_value = 197 / 300, paoi_crop_type = ''corn'', target_pest = ''general'',
           paoi_application_window =
             \<lparr>optimal_hours = 16, next_optimal_time = ''06:00-10:00'',
              avoid_times = ''14:00-18:00'', window_confidence = 203 / 300\<rparr>,
           paoi_components =
             [(''vegetation_stress'', 1 / 2), (''pest_favorable_conditions'', 7 / 10),
              (''weather_suitability'', 5 / 6), (''phenology_timing'', 3 / 5),
              (''spray_drift_risk'', 3 / 4)],
           environmental_impact_score = 13 / 24,
           paoi_recommendations =
             [''Moderate conditions for application'',
              ''Consider waiting for better conditions'',
              ''Use targeted application methods'']\<rparr>"
  by (simp add: paoi_defs rng_zero_def)

lemma paoi_at_rng_half:
  "fst (compute_pesticide_application_optimization_index rng_half [] ''corn'' ''general'') =
     Inr \<lparr>paoi_value = 1423 / 2400, paoi_crop_type = ''corn'', target_pest = ''general'',
           paoi_application_window =
             \<lparr>optimal_hours = 13, next_optimal_time = ''06:00-10:00'',
              avoid_times = ''14:00-18:00'', window_confidence = 683 / 1200\<rparr>,
           paoi_components =
             [(''vegetation_stress'', 1 / 2), (''pest_favorable_conditions'', 7 / 10),
              (''weather_suitability'', 11 / 15), (''phenology_timing'', 3 / 5),
              (''spray_drift_risk'', 5 / 16)],
           environmental_impact_score = 341 / 480,
           paoi_recommendations =
             [''Moderate conditions for application'',
              ''Consider waiting for better conditions'',
              ''Use targeted application methods'']\<rparr>"
  by (simp add: paoi_defs rng_half_def)

text \<open>
  Claim C3, at the failing input. The component stored under \<open>spray_drift_risk\<close> is already
  \<open>1 - drift_risk\<close>, and \<open>_assess_environmental_impact\<close> inverts it once more: the score is
  the average of weather suitability and the drift risk itself. With an empty raw-data map,
  wind speed 5 and aerosol depth 0.3 (every unit sample 1/2) the drift risk is 11/16 and the
  weather suitability 11/15; the code returns 341/480 where the claimed average is 251/480.
\<close>

theorem environmental_impact_inverts_twice:
  "assess_environmental_impact
     [(''vegetation_stress'', a), (''pest_favorable_conditions'', b),
      (''weather_suitability'', w), (''phenology_timing'', c),
      (''spray_drift_risk'', 1 - r)] = (w + r) / 2
   \<and> calculate_spray_drift_risk \<lparr>speed = 5, direction = 180\<rparr>
         \<lparr>aod_550 = 0.3, aod_865 = 0.175\<rparr> = 11 / 16
   \<and> map_sum id paoi_components
         (fst (compute_pesticide_application_optimization_index rng_half [] ''corn'' ''general''))
       = Inr [(''vegetation_stress'', 1 / 2), (''pest_favorable_conditions'', 7 / 10),
              (''weather_suitability'', 11 / 15), (''phenology_timing'', 3 / 5),
              (''spray_drift_risk'', 5 / 16)]
   \<and> map_sum id environmental_impact_score
         (fst (compute_pesticide_application_optimization_index rng_half [] ''corn'' ''general''))
       = Inr (341 / 480)
   \<and> spec_environmental_impact (11 / 15) (11 / 16) = 251 / 480"
  by (simp add: paoi_at_rng_half assess_environmental_impact_def dict_get_def
        calculate_spray_drift_risk_def spec_environmental_impact_def)

text \<open>
  Claim C2 fails for PAOI: on the same (empty) raw-data map, crop and pest, two states of the
  generator give the values 197/300 and 1423/2400.
\<close>

theorem paoi_not_function_of_raw_data:
  "map_sum id paoi_value
     (fst (compute_pesticide_application_optimization_index rng_zero [] ''corn'' ''general''))
     = Inr (197 / 300)
   \<and> map_sum id paoi_value
     (fst (compute_pesticide_application_optimization_index rng_half [] ''corn'' ''general''))
     = Inr (1423 / 2400)
   \<and> fst (compute_pesticide_application_optimization_index rng_zero [] ''corn'' ''general'')
     \<noteq> fst (compute_pesticide_application_optimization_index rng_half [] ''corn'' ''general'')"
  by (simp add: paoi_at_rng_zero paoi_at_rng_half)

text \<open>
  Claim C2, as the code has it. USMI, AWLI, the alerts and the integrated recommendations
  (as a set) make no draw: they are functions of their arguments. PAOI draws the wind speed
  and direction and two aerosol depths from \<open>np.random\<close>; its result is determined by the
  raw-data map, crop and pest together with the first and third of these draws (wind speed and
  \<open>aod_550\<close>), so two invocations agree whenever those two draws do.
\<close>

theorem paoi_determined_by_two_draws:
  assumes "g 0 = g' 0" and "g 2 = g' 2"
  shows "fst (compute_pesticide_application_optimization_index g raw_data crop_type pest)
       = fst (compute_pesticide_application_optimization_index g' raw_data crop_type pest)"
proof -
  have w: "speed (fst (extract_wind_data d g)) = speed (fst (extract_wind_data d g'))" for d
    using assms(1) by (simp add: extract_wind_data_def uniform_def)
  have a: "aod_550 (fst (mock_aerosol_data (snd (extract_wind_data d g))))
         = aod_550 (fst (mock_aerosol_data (snd (extract_wind_data d g'))))" for d
    using assms(2)
    by (simp add: extract_wind_data_def mock_aerosol_data_def uniform_def numeral_2_eq_2)
  have s: "assess_application_weather_suitability (fst (extract_wind_data d g)) f t
         = assess_application_weather_suitability (fst (extract_wind_data d g')) f t" for d f t
    using w [of d] by (simp add: assess_application_weather_suitability_def)
  have r: "calculate_spray_drift_risk (fst (extract_wind_data d g))
             (fst (mock_aerosol_data (snd (extract_wind_data d g))))
         = calculate_spray_drift_risk (fst (extract_wind_data d g'))
             (fst (mock_aerosol_data (snd (extract_wind_data d g'))))" for d
    using w [of d] a [of d] by (simp add: calculate_spray_drift_risk_def)
  show ?thesis
    unfolding compute_pesticide_application_optimization_index_def Let_def
    using s r by (simp add: split_def split: sum.splits)
qed

theorem paoi_determined_by_two_draws_witness:
  "rng_half 0 = rng_mixed 0 \<and> rng_half 2 = rng_mixed 2 \<and> rng_half 1 \<noteq> rng_mixed 1
   \<and> fst (compute_pesticide_application_optimization_index rng_half raw_example ''corn''
            ''aphids'')
     = fst (compute_pesticide_application_optimization_index rng_mixed raw_example ''corn''
            ''aphids'')"
proof -
  have h0: "rng_half 0 = rng_mixed 0" by (simp add: rng_half_def rng_mixed_def)
  have h2: "rng_half 2 = rng_mixed 2" by (simp add: rng_half_def rng_mixed_def)
  have h1: "rng_half 1 \<noteq> rng_mixed 1" by (simp add: rng_half_def rng_mixed_def)
  show ?thesis
    using h0 h2 h1 paoi_determined_by_two_draws [OF h0 h2] by simp
qed

section \<open>Acquisition\<close>

lemma fetch_dataset_unfold:
  "fetch_dataset src d =
     (case dispatch src d 0 of
        Inr r \<Rightarrow> (Inr (Fetched r), \<lparr>attempts = 1, sleeps = []\<rparr>)
      | Inl e0 \<Rightarrow>
     (case dispatch src d 1 of
        Inr r \<Rightarrow> (Inr (Fetched r), \<lparr>attempts = 2, sleeps = [1]\<rparr>)
      | Inl e1 \<Rightarrow>
     (case dispatch src d 2 of
        Inr r \<Rightarrow> (Inr (Fetched r), \<lparr>attempts = 3, sleeps = [1, 2]\<rparr>)
      | Inl e2 \<Rightarrow> (Inl e2, \<lparr>attempts = 3, sleeps = [1, 2]\<rparr>))))"
proof -
  have r: "[0..<max_retries] = [0, 1, 2]"
    by (simp add: max_retries_def upt_rec numeral_3_eq_3)
  show ?thesis
    unfolding fetch_dataset_def r
    by (simp add: max_retries_def Let_def split: sum.splits)
qed

lemma dispatch_unknown:
  "d \<notin> set known_datasets \<Longrightarrow> dispatch src d a = Inl (ValueError (''Unknown dataset: '' @ d))"
  by (simp add: known_datasets_def dispatch_def)

lemma bulk_fold:
  "map_of (fold (\<lambda>(dataset, result) acc. dict_set acc dataset (organize result))
             (zip ds (map g ds)) acc) k =
     (if k \<in> set ds then Some (organize (g k)) else map_of acc k)"
  unfolding dict_set_def
proof (induction ds arbitrary: acc)
  case Nil
  then show ?case by simp
next
  case (Cons d ds)
  show ?case by (simp add: Cons.IH update_conv')
qed

lemma bulk_slot:
  "map_of (bulk_data_fetch src ds) k =
     (if k \<in> set ds then Some (organize (fst (fetch_dataset src k))) else None)"
  by (simp add: bulk_data_fetch_def bulk_fold)

text \<open>
  Claim C5. A fetch task makes at most 3 attempts and sleeps \<open>2 ^ attempt\<close> seconds after each
  failed attempt but the last one it makes; a fetch that fails twice and then succeeds yields
  the record of the third attempt; when all three attempts fail the task ends in the last
  exception, its slot of the result is \<open>None\<close>, and every requested slot still holds the
  outcome of its own task.
\<close>

theorem fetch_dataset_retries_with_backoff:
  "attempts (snd (fetch_dataset src dataset_id)) \<le> 3
   \<and> sleeps (snd (fetch_dataset src dataset_id))
       = map (\<lambda>attempt. 2 ^ attempt) [0..<attempts (snd (fetch_dataset src dataset_id)) - 1]
   \<and> (dispatch src dataset_id 0 = Inl e0 \<and> dispatch src dataset_id 1 = Inl e1
        \<and> dispatch src dataset_id 2 = Inr r \<longrightarrow>
      fetch_dataset src dataset_id = (Inr (Fetched r), \<lparr>attempts = 3, sleeps = [1, 2]\<rparr>))
   \<and> (dispatch src dataset_id 0 = Inl e0 \<and> dispatch src dataset_id 1 = Inl e1
        \<and> dispatch src dataset_id 2 = Inl e2 \<longrightarrow>
      fetch_dataset src dataset_id = (Inl e2, \<lparr>attempts = 3, sleeps = [1, 2]\<rparr>)
      \<and> (dataset_id \<in> set datasets \<longrightarrow>
           map_of (bulk_data_fetch src datasets) dataset_id = Some None)
      \<and> (\<forall>other\<in>set datasets.
           map_of (bulk_data_fetch src datasets) other
             = Some (organize (fst (fetch_dataset src other)))))"
proof -
  have u: "[0..<Suc 0] = [0]" "[0..<2] = [0, 1]"
    by (simp_all add: upt_rec)
  have a: "attempts (snd (fetch_dataset src dataset_id)) \<le> 3"
    by (simp add: fetch_dataset_unfold split: sum.splits)
  have b: "sleeps (snd (fetch_dataset src dataset_id))
       = map (\<lambda>attempt. 2 ^ attempt) [0..<attempts (snd (fetch_dataset src dataset_id)) - 1]"
    by (simp add: fetch_dataset_unfold u split: sum.splits)
  have c: "fetch_dataset src dataset_id = (Inr (Fetched r), \<lparr>attempts = 3, sleeps = [1, 2]\<rparr>)"
    if "dispatch src dataset_id 0 = Inl e0" "dispatch src dataset_id 1 = Inl e1"
       "dispatch src dataset_id 2 = Inr r"
    using that by (simp add: fetch_dataset_unfold)
  have d: "fetch_dataset src dataset_id = (Inl e2, \<lparr>attempts = 3, sleeps = [1, 2]\<rparr>)"
    if "dispatch src dataset_id 0 = Inl e0" "dispatch src dataset_id 1 = Inl e1"
       "dispatch src dataset_id 2 = Inl e2"
    using that by (simp add: fetch_dataset_unfold)
  have e: "map_of (bulk_data_fetch src datasets) dataset_id = Some None"
    if "fetch_dataset src dataset_id = (Inl e2, \<lparr>attempts = 3, sleeps = [1, 2]\<rparr>)"
       "dataset_id \<in> set datasets"
    using that by (simp add: bulk_slot organize_def)
  have f: "\<forall>other\<in>set datasets.
           map_of (bulk_data_fetch src datasets) other
             = Some (organize (fst (fetch_dataset src other)))"
    by (simp add: bulk_slot)
  show ?thesis
    using a b c d e f by blast
qed

theorem fetch_dataset_retries_with_backoff_witness:
  "fetch_dataset flaky_source ''gpm''
     = (Inr (Fetched ''gpm record''), \<lparr>attempts = 3, sleeps = [1, 2]\<rparr>)
   \<and> fetch_dataset flaky_source ''grace''
     = (Inl (FetchFailure ''timeout''), \<lparr>attempts = 3, sleeps = [1, 2]\<rparr>)
   \<and> map_of (bulk_data_fetch flaky_source [''smap_l3'', ''grace'', ''gpm'']) ''grace'' = Some None
   \<and> map_of (bulk_data_fetch flaky_source [''smap_l3'', ''grace'', ''gpm'']) ''gpm''
     = Some (Some (Fetched ''gpm record''))"
proof -
  have g: "dispatch flaky_source ''gpm'' 0 = Inl (FetchFailure ''timeout'')"
      "dispatch flaky_source ''gpm'' 1 = Inl (FetchFailure ''timeout'')"
      "dispatch flaky_source ''gpm'' 2 = Inr ''gpm record''"
    by (simp_all add: dispatch_def flaky_source_def)
  have r: "dispatch flaky_source ''grace'' 0 = Inl (FetchFailure ''timeout'')"
      "dispatch flaky_source ''grace'' 1 = Inl (FetchFailure ''timeout'')"
      "dispatch flaky_source ''grace'' 2 = Inl (FetchFailure ''timeout'')"
    by (simp_all add: dispatch_def flaky_source_def)
  have m: "''grace'' \<in> set [''smap_l3'', ''grace'', ''gpm'']"
      "''gpm'' \<in> set [''smap_l3'', ''grace'', ''gpm'']"
    by simp_all
  have 1: "fetch_dataset flaky_source ''gpm''
     = (Inr (Fetched ''gpm record''), \<lparr>attempts = 3, sleeps = [1, 2]\<rparr>)"
    using g fetch_dataset_retries_with_backoff
            [of flaky_source "''gpm''" "FetchFailure ''timeout''" "FetchFailure ''timeout''"
                "''gpm record''"]
    by blast
  have 2: "fetch_dataset flaky_source ''grace''
     = (Inl (FetchFailure ''timeout''), \<lparr>attempts = 3, sleeps = [1, 2]\<rparr>)
   \<and> map_of (bulk_data_fetch flaky_source [''smap_l3'', ''grace'', ''gpm'']) ''grace'' = Some None
   \<and> map_of (bulk_data_fetch flaky_source [''smap_l3'', ''grace'', ''gpm'']) ''gpm''
     = Some (organize (fst (fetch_dataset flaky_source ''gpm'')))"
    using r m fetch_dataset_retries_with_backoff
            [of flaky_source "''grace''" "FetchFailure ''timeout''" "FetchFailure ''timeout''"
                _ "FetchFailure ''timeout''" "[''smap_l3'', ''grace'', ''gpm'']"]
    by blast
  show ?thesis
    using 1 2 by (simp add: organize_def)
qed

text \<open>
  Claim C6 fails on the attempt count and the delay: the \<open>ValueError\<close> for an unknown id is
  raised inside the \<open>try\<close> block and caught by the same handler as any failure. For the
  id \<open>sentinel2\<close> the task makes three attempts and sleeps 1 and 2 seconds.
\<close>

theorem unknown_dataset_counterexample:
  "''sentinel2'' \<notin> set known_datasets
   \<and> attempts (snd (fetch_dataset flaky_source ''sentinel2'')) = 3
   \<and> sleeps (snd (fetch_dataset flaky_source ''sentinel2'')) = [1, 2]
   \<and> sum_list (sleeps (snd (fetch_dataset flaky_source ''sentinel2''))) = 3"
  by (simp add: known_datasets_def fetch_dataset_unfold dispatch_def)

text \<open>
  Claim C6, as the code has it. For an id outside the enumeration no fetch routine is called:
  every attempt raises \<open>ValueError\<close>, which is retried like any failure. The task makes three
  attempts with delays 1 and 2 and ends in the \<open>ValueError\<close>; its slot is \<open>None\<close>, and every
  other requested slot holds the outcome of its own task.
\<close>

theorem unknown_dataset_is_retried:
  assumes "dataset_id \<notin> set known_datasets"
  shows "fetch_dataset src dataset_id
           = (Inl (ValueError (''Unknown dataset: '' @ dataset_id)),
              \<lparr>attempts = 3, sleeps = [1, 2]\<rparr>)
         \<and> (dataset_id \<in> set datasets \<longrightarrow>
              map_of (bulk_data_fetch src datasets) dataset_id = Some None)
         \<and> (\<forall>other\<in>set datasets. other \<noteq> dataset_id \<longrightarrow>
              map_of (bulk_data_fetch src datasets) other
                = Some (organize (fst (fetch_dataset src other))))"
proof -
  have f: "fetch_dataset src dataset_id
           = (Inl (ValueError (''Unknown dataset: '' @ dataset_id)),
              \<lparr>attempts = 3, sleeps = [1, 2]\<rparr>)"
    by (simp add: fetch_dataset_unfold dispatch_unknown [OF assms])
  then show ?thesis
    by (simp add: bulk_slot organize_def)
qed

theorem unknown_dataset_is_retried_witness:
  "''sentinel2'' \<notin> set known_datasets
   \<and> fetch_dataset flaky_source ''sentinel2''
       = (Inl (ValueError ''Unknown dataset: sentinel2''), \<lparr>attempts = 3, sleeps = [1, 2]\<rparr>)
   \<and> map_of (bulk_data_fetch flaky_source [''sentinel2'', ''smap_l3'']) ''sentinel2'' = Some None
   \<and> map_of (bulk_data_fetch flaky_source [''sentinel2'', ''smap_l3'']) ''smap_l3''
       = Some (Some (Fetched ''record''))"
proof -
  have u: "''sentinel2'' \<notin> set known_datasets"
    by (simp add: known_datasets_def)
  have m: "''sentinel2'' \<in> set [''sentinel2'', ''smap_l3'']"
      "''smap_l3'' \<in> set [''sentinel2'', ''smap_l3'']" "''smap_l3'' \<noteq> ''sentinel2''"
    by simp_all
  have s: "organize (fst (fetch_dataset flaky_source ''smap_l3'')) = Some (Fetched ''record'')"
    by (simp add: fetch_dataset_unfold dispatch_def flaky_source_def organize_def)
  from unknown_dataset_is_retried [OF u, of flaky_source "[''sentinel2'', ''smap_l3'']"] m
  have "fetch_dataset flaky_source ''sentinel2''
       = (Inl (ValueError ''Unknown dataset: sentinel2''), \<lparr>attempts = 3, sleeps = [1, 2]\<rparr>)
   \<and> map_of (bulk_data_fetch flaky_source [''sentinel2'', ''smap_l3'']) ''sentinel2'' = Some None
   \<and> map_of (bulk_data_fetch flaky_source [''sentinel2'', ''smap_l3'']) ''smap_l3''
       = Some (organize (fst (fetch_dataset flaky_source ''smap_l3'')))"
    by simp
  then show ?thesis
    using u s by simp
qed

end
